theory Spec2Isabelle
  imports Complex_Main
begin

section \<open>The Monitor of pysolovideo/tracking/monitor.py\<close>

text \<open>
  A shallow embedding of the class \<open>Monitor\<close>. Python objects that are shared and
  mutated in place (frames, the \<open>_last_positions\<close> dictionary) live in a store and are
  named by their address; the attributes of \<open>self\<close> are the fields of a record; every
  \<open>raise\<close> is a value. The collaborators the module imports (camera, TrackingUnit,
  ResultWriter, cv2, logging) are not part of the file: their behaviour is a parameter
  (the record \<open>env\<close>), and every call the Monitor makes on them is appended to a trace.
\<close>

subsection \<open>Exceptions\<close>

text \<open>
  The classes the two \<open>except\<close> clauses of \<open>run\<close> tell apart, and the built-in
  errors the module itself can raise. \<open>NonException\<close> stands for the instances of
  \<open>BaseException\<close> that are no \<open>Exception\<close> (KeyboardInterrupt, SystemExit).
\<close>

datatype exn_class =
  PSVException | ValueError | TypeError | AttributeError | ZeroDivisionError
  | OtherException | NonException

datatype exn = Exn exn_class string

fun exn_cls :: "exn \<Rightarrow> exn_class" where
  "exn_cls (Exn c msg) = c"

fun str_exn :: "exn \<Rightarrow> string" where
  "str_exn (Exn c msg) = msg"

definition is_Exception :: "exn \<Rightarrow> bool" where
  "is_Exception e = (exn_cls e \<noteq> NonException)"

subsection \<open>Data\<close>

type_synonym point = "int \<times> int"
type_synonym colour = "nat \<times> nat \<times> nat"

record roi =
  idx :: int
  polygon :: "point list"
  offset :: point

text \<open>A position is read by its keys \<open>x, y, w, h, phi, is_inferred, has_interacted\<close>.\<close>

record position =
  pos_x :: real
  pos_y :: real
  pos_w :: real
  pos_h :: real
  pos_phi :: real
  is_inferred :: bool
  has_interacted :: bool

text \<open>
  The calls of cv2 that draw on an array. An image is the acquired array (its shape and
  an opaque content) together with the drawing calls made on it so far, oldest first.
\<close>

datatype draw_op =
  PutText string point colour
  | DrawContours "point list list" colour
  | Ellipse "(real \<times> real) \<times> (real \<times> real) \<times> real" colour

record image =
  shape :: "nat \<times> nat"
  raw :: nat
  drawn :: "draw_op list"

record ('i, 'ts) tracking_unit =
  roi :: roi
  interactor :: "'i option"
  tstate :: 'ts

record vwriter =
  vw_path :: string
  vw_fourcc :: string
  vw_fps :: nat
  vw_size :: "nat \<times> nat"

record rwriter =
  rw_file :: string
  rw_metadata :: "string option"

subsection \<open>The calls on collaborators, and the world\<close>

datatype 'd call =
  DefaultROIBuilder
  | CameraRestart
  | NewTrackingUnit int
  | NamedWindow string
  | NewResultWriter string "string option"
  | CameraNext
  | NewVideoWriter string string nat "nat \<times> nat"
  | Track int real
  | GetLastPosition int
  | RwWrite real roi 'd
  | RwFlush
  | Imshow string image
  | WaitKey nat
  | VwWrite image
  | DestroyAllWindows
  | VwRelease
  | LogInfo string
  | LogError string

text \<open>
  The store: \<open>imgs\<close> holds the frame arrays and \<open>dicts\<close> the dictionaries, an object's
  address being its index; a new object is appended. \<open>trace\<close> is the list of calls made
  on the collaborators so far.
\<close>

record 'd world =
  imgs :: "image list"
  dicts :: "(int \<Rightarrow> position option) list"
  trace :: "'d call list"

text \<open>
  The collaborators. Those with a state of their own that the Monitor holds (the
  tracking units) are functions of that state; the others answer from the calls made so
  far. \<open>raises\<close> says whether a call that returns nothing raises.
  \<open>stop_called_during i\<close> says that another thread calls \<open>stop()\<close> while frame \<open>i\<close> is
  processed.
\<close>

record ('tc, 'i, 'ts, 'd) env =
  getpid :: nat
  default_roi_builder :: "'d call list \<Rightarrow> exn + roi list"
  new_tracking_unit :: "'tc \<Rightarrow> roi \<Rightarrow> 'i option \<Rightarrow> exn + 'ts"
  camera_next :: "'d call list \<Rightarrow> exn + (real \<times> image) option"
  track :: "'ts \<Rightarrow> real \<Rightarrow> image \<Rightarrow> exn + ('d option \<times> 'ts)"
  get_last_position :: "'ts \<Rightarrow> exn + position option"
  raises :: "'d call list \<Rightarrow> 'd call \<Rightarrow> exn option"
  stop_called_during :: "nat \<Rightarrow> bool"

definition emit :: "'d call \<Rightarrow> 'd world \<Rightarrow> 'd world" where
  "emit c w = w\<lparr>trace := trace w @ [c]\<rparr>"

definition ext :: "('tc, 'i, 'ts, 'd) env \<Rightarrow> 'd call \<Rightarrow> 'd world \<Rightarrow> exn option \<times> 'd world" where
  "ext env c w = (raises env (trace w) c, emit c w)"

subsection \<open>The attributes of a Monitor\<close>

record ('i, 'ts) monitor =
  self_result_file :: "string option"
  self_metadata :: "string option"
  self_exception :: "exn option"
  self_draw_results :: bool
  self_window_name :: "string option"
  draw_every_n :: int
  self_max_duration :: "real option"
  self_video_out :: "string option"
  self_frame_buffer :: "nat option"
  self_force_stop :: bool
  self_last_positions :: nat
  self_last_time_stamp :: real
  self_is_running :: bool
  self_unit_trackers :: "('i, 'ts) tracking_unit list"

subsection \<open>\<open>str\<close> of an integer\<close>

definition digit :: "nat \<Rightarrow> char" where
  "digit n = ''0123456789'' ! n"

function str_nat :: "nat \<Rightarrow> string" where
  "str_nat n = (if n < 10 then [digit n] else str_nat (n div 10) @ [digit (n mod 10)])"
  by pat_completeness auto
termination
  by (relation "measure (\<lambda>n. n)") auto

declare str_nat.simps [simp del]

definition str_int :: "int \<Rightarrow> string" where
  "str_int k = (if k < 0 then CHR ''-'' # str_nat (nat (- k)) else str_nat (nat k))"

subsection \<open>The store operations\<close>

definition ndarray_copy :: "nat \<Rightarrow> 'd world \<Rightarrow> nat \<times> 'd world" where
  "ndarray_copy a w = (length (imgs w), w\<lparr>imgs := imgs w @ [imgs w ! a]\<rparr>)"

definition draw :: "draw_op \<Rightarrow> image \<Rightarrow> image" where
  "draw d im = im\<lparr>drawn := drawn im @ [d]\<rparr>"

definition cv2_putText :: "nat \<Rightarrow> string \<Rightarrow> point \<Rightarrow> colour \<Rightarrow> 'd world \<Rightarrow> 'd world" where
  "cv2_putText a s org c w = w\<lparr>imgs := (imgs w)[a := draw (PutText s org c) (imgs w ! a)]\<rparr>"

definition cv2_drawContours :: "nat \<Rightarrow> point list list \<Rightarrow> colour \<Rightarrow> 'd world \<Rightarrow> 'd world" where
  "cv2_drawContours a cs c w = w\<lparr>imgs := (imgs w)[a := draw (DrawContours cs c) (imgs w ! a)]\<rparr>"

definition cv2_ellipse ::
  "nat \<Rightarrow> (real \<times> real) \<times> (real \<times> real) \<times> real \<Rightarrow> colour \<Rightarrow> 'd world \<Rightarrow> 'd world" where
  "cv2_ellipse a box c w = w\<lparr>imgs := (imgs w)[a := draw (Ellipse box c) (imgs w ! a)]\<rparr>"

definition dict_setitem :: "nat \<Rightarrow> int \<Rightarrow> position \<Rightarrow> 'd world \<Rightarrow> 'd world" where
  "dict_setitem p k v w = w\<lparr>dicts := (dicts w)[p := (dicts w ! p)(k \<mapsto> v)]\<rparr>"

subsection \<open>\<open>_draw_on_frame\<close> (lines 129 to 156)\<close>

text \<open>
  One turn of the loop over \<open>self._unit_trackers\<close>: the label is written first; a missing
  key ends the turn (\<open>except KeyError: continue\<close>); otherwise the outline and the ellipse
  follow.
\<close>

definition draw_unit :: "nat \<Rightarrow> nat \<Rightarrow> ('i, 'ts) tracking_unit \<Rightarrow> 'd world \<Rightarrow> 'd world" where
  "draw_unit positions frame_cp track_u w =
     (let w1 = cv2_putText frame_cp (str_int (idx (roi track_u))) (offset (roi track_u))
                 (255, 255, 0) w
      in case (dicts w1 ! positions) (idx (roi track_u)) of
           None \<Rightarrow> w1
         | Some pos \<Rightarrow>
             (let roi_colour = (if has_interacted pos then (0, 255, 0) else (255, 0, 255));
                  colour = (if is_inferred pos = True then (255, 0, 0) else (0, 255, 255));
                  w2 = cv2_drawContours frame_cp [polygon (roi track_u)] roi_colour w1
              in cv2_ellipse frame_cp
                   ((pos_x pos, pos_y pos), (pos_w pos, pos_h pos), pos_phi pos) colour w2))"

fun draw_units :: "nat \<Rightarrow> nat \<Rightarrow> ('i, 'ts) tracking_unit list \<Rightarrow> 'd world \<Rightarrow> 'd world" where
  "draw_units positions frame_cp [] w = w"
| "draw_units positions frame_cp (track_u # us) w =
     draw_units positions frame_cp us (draw_unit positions frame_cp track_u w)"

text \<open>\<open>frame.copy()\<close> on \<open>None\<close> raises AttributeError.\<close>

definition draw_on_frame ::
  "('i, 'ts) monitor \<Rightarrow> nat option \<Rightarrow> 'd world \<Rightarrow> (exn + nat) \<times> 'd world" where
  "draw_on_frame m frame w =
     (case frame of
        None \<Rightarrow> (Inl (Exn AttributeError ''NoneType object has no attribute copy''), w)
      | Some a \<Rightarrow>
          (let (frame_cp, w1) = ndarray_copy a w
           in (Inr frame_cp,
               draw_units (self_last_positions m) frame_cp (self_unit_trackers m) w1)))"

subsection \<open>The properties and \<open>stop\<close> (lines 97 to 127)\<close>

definition last_positions :: "('i, 'ts) monitor \<Rightarrow> exn + nat" where
  "last_positions m =
     (case self_exception m of Some e \<Rightarrow> Inl e | None \<Rightarrow> Inr (self_last_positions m))"


definition last_drawn_frame :: "('i, 'ts) monitor \<Rightarrow> 'd world \<Rightarrow> (exn + nat) \<times> 'd world" where
  "last_drawn_frame m w =
     (case self_exception m of
        Some e \<Rightarrow> (Inl e, w)
      | None \<Rightarrow> draw_on_frame m (self_frame_buffer m) w)"


definition stop :: "('i, 'ts) monitor \<Rightarrow> exn + ('i, 'ts) monitor" where
  "stop m =
     (case self_exception m of Some e \<Rightarrow> Inl e | None \<Rightarrow> Inr (m\<lparr>self_force_stop := True\<rparr>))"

subsection \<open>\<open>__init__\<close> (lines 41 to 94)\<close>

text \<open>
  The list comprehensions of lines 89 and 92: one \<open>TrackingUnit(tracker_class, r, inter)\<close>
  per pair, in order; a constructor that raises ends the comprehension.
\<close>

fun make_units ::
  "('tc, 'i, 'ts, 'd) env \<Rightarrow> 'tc \<Rightarrow> (roi \<times> 'i option) list \<Rightarrow> 'd world
   \<Rightarrow> (exn + ('i, 'ts) tracking_unit list) \<times> 'd world" where
  "make_units env tracker_class [] w = (Inr [], w)"
| "make_units env tracker_class ((r, actor) # rest) w =
     (let w1 = emit (NewTrackingUnit (idx r)) w
      in case new_tracking_unit env tracker_class r actor of
           Inl e \<Rightarrow> (Inl e, w1)
         | Inr ts \<Rightarrow>
             (case make_units env tracker_class rest w1 of
                (Inl e, w2) \<Rightarrow> (Inl e, w2)
              | (Inr us, w2) \<Rightarrow>
                  (Inr (\<lparr>roi = r, interactor = actor, tstate = ts\<rparr> # us), w2)))"

text \<open>
  \<open>max_duration * 1000\<close> (line 73) is evaluated whatever \<open>max_duration\<close> is; on \<open>None\<close>
  the product raises TypeError. The dictionary of line 79 is a new object of the store.
\<close>

definition Monitor_init ::
  "('tc, 'i, 'ts, 'd) env \<Rightarrow> 'tc \<Rightarrow> roi list option \<Rightarrow> 'i list option \<Rightarrow> string option
   \<Rightarrow> bool \<Rightarrow> int \<Rightarrow> string option \<Rightarrow> real option \<Rightarrow> string option \<Rightarrow> 'd world
   \<Rightarrow> (exn + ('i, 'ts) monitor) \<times> 'd world" where
  "Monitor_init env tracker_class rois interactors result_file draw_results n video_out
       max_duration metadata w =
     (case max_duration of
        None \<Rightarrow>
          (Inl (Exn TypeError ''unsupported operand type(s) for *: NoneType and int''), w)
      | Some d \<Rightarrow>
          (let m = \<lparr>self_result_file = result_file,
                     self_metadata = metadata,
                     self_exception = None,
                     self_draw_results = draw_results,
                     self_window_name =
                       (if draw_results then Some (''psv_'' @ str_nat (getpid env)) else None),
                     draw_every_n = n,
                     self_max_duration = Some (d * 1000),
                     self_video_out = video_out,
                     self_frame_buffer = None,
                     self_force_stop = False,
                     self_last_positions = length (dicts w),
                     self_last_time_stamp = 0,
                     self_is_running = False,
                     self_unit_trackers = []\<rparr>;
               w1 = w\<lparr>dicts := dicts w @ [Map.empty]\<rparr>
           in case (case rois of
                      None \<Rightarrow>
                        (default_roi_builder env (trace w1), emit DefaultROIBuilder w1)
                    | Some rs \<Rightarrow> (Inr rs, w1)) of
                (Inl e, w2) \<Rightarrow> (Inl e, w2)
              | (Inr rs, w2) \<Rightarrow>
                  (case ext env CameraRestart w2 of
                     (Some e, w3) \<Rightarrow> (Inl e, w3)
                   | (None, w3) \<Rightarrow>
                       (case (case interactors of
                                None \<Rightarrow>
                                  make_units env tracker_class (map (\<lambda>r. (r, None)) rs) w3
                              | Some inters \<Rightarrow>
                                  if length inters = length rs
                                  then make_units env tracker_class
                                         (zip rs (map Some inters)) w3
                                  else (Inl (Exn ValueError
                                               ''You should have one interactor per ROI''), w3)) of
                          (Inl e, w4) \<Rightarrow> (Inl e, w4)
                        | (Inr us, w4) \<Rightarrow> (Inr (m\<lparr>self_unit_trackers := us\<rparr>), w4)))))"

subsection \<open>\<open>run\<close>: the body of the loop (lines 178 to 210)\<close>

text \<open>
  The state of a call of \<open>run\<close>: the Monitor, the two local variables \<open>vw\<close> and
  \<open>result_writer\<close>, and the world. A step returns the exception it raises, if any, and
  the state at that moment.
\<close>

record ('i, 'ts, 'd) rstate =
  st_mon :: "('i, 'ts) monitor"
  st_vw :: "vwriter option"
  st_result_writer :: "rwriter option"
  st_world :: "'d world"

text \<open>Lines 181 and 182: the encoder is opened on the first frame seen with \<open>vw\<close> unset.\<close>

definition open_video ::
  "('tc, 'i, 'ts, 'd) env \<Rightarrow> nat \<Rightarrow> ('i, 'ts, 'd) rstate \<Rightarrow> exn option \<times> ('i, 'ts, 'd) rstate" where
  "open_video env frame s =
     (case self_video_out (st_mon s) of
        None \<Rightarrow> (None, s)
      | Some path \<Rightarrow>
          (if st_vw s = None
           then (let sh = shape (imgs (st_world s) ! frame)
                 in case ext env (NewVideoWriter path ''DIVX'' 50 (snd sh, fst sh)) (st_world s) of
                      (Some e, w1) \<Rightarrow> (Some e, s\<lparr>st_world := w1\<rparr>)
                    | (None, w1) \<Rightarrow>
                        (None, s\<lparr>st_vw := Some \<lparr>vw_path = path, vw_fourcc = ''DIVX'',
                                                  vw_fps = 50, vw_size = (snd sh, fst sh)\<rparr>,
                                  st_world := w1\<rparr>))
           else (None, s)))"

text \<open>Lines 188 to 198: one tracking unit on the frame.\<close>

definition track_one ::
  "('tc, 'i, 'ts, 'd) env \<Rightarrow> real \<Rightarrow> nat \<Rightarrow> rwriter option \<Rightarrow> nat \<Rightarrow> ('i, 'ts) tracking_unit
   \<Rightarrow> 'd world \<Rightarrow> exn option \<times> ('i, 'ts) tracking_unit \<times> 'd world" where
  "track_one env t frame rw positions track_u w =
     (let w1 = emit (Track (idx (roi track_u)) t) w
      in case track env (tstate track_u) t (imgs w1 ! frame) of
           Inl e \<Rightarrow> (Some e, track_u, w1)
         | Inr (data_row, ts) \<Rightarrow>
             (let u1 = track_u\<lparr>tstate := ts\<rparr>
              in case data_row of
                   None \<Rightarrow> (None, u1, w1)
                 | Some row \<Rightarrow>
                     (let w2 = emit (GetLastPosition (idx (roi u1))) w1
                      in case get_last_position env ts of
                           Inl e \<Rightarrow> (Some e, u1, w2)
                         | Inr abs_pos \<Rightarrow>
                             (let w3 = (case abs_pos of
                                          None \<Rightarrow> w2
                                        | Some pos \<Rightarrow> dict_setitem positions (idx (roi u1)) pos w2)
                              in case rw of
                                   None \<Rightarrow> (None, u1, w3)
                                 | Some wr \<Rightarrow>
                                     (case ext env (RwWrite t (roi u1) row) w3 of
                                        (r, w4) \<Rightarrow> (r, u1, w4))))))"

text \<open>Line 184: the units in the order of the list; an exception ends the loop.\<close>

fun track_all ::
  "('tc, 'i, 'ts, 'd) env \<Rightarrow> real \<Rightarrow> nat \<Rightarrow> rwriter option \<Rightarrow> nat \<Rightarrow> ('i, 'ts) tracking_unit list
   \<Rightarrow> 'd world \<Rightarrow> exn option \<times> ('i, 'ts) tracking_unit list \<times> 'd world" where
  "track_all env t frame rw positions [] w = (None, [], w)"
| "track_all env t frame rw positions (track_u # us) w =
     (case track_one env t frame rw positions track_u w of
        (Some e, u1, w1) \<Rightarrow> (Some e, u1 # us, w1)
      | (None, u1, w1) \<Rightarrow>
          (case track_all env t frame rw positions us w1 of
             (r, us1, w2) \<Rightarrow> (r, u1 # us1, w2)))"

definition track_units ::
  "('tc, 'i, 'ts, 'd) env \<Rightarrow> real \<Rightarrow> nat \<Rightarrow> ('i, 'ts, 'd) rstate
   \<Rightarrow> exn option \<times> ('i, 'ts, 'd) rstate" where
  "track_units env t frame s =
     (case track_all env t frame (st_result_writer s) (self_last_positions (st_mon s))
             (self_unit_trackers (st_mon s)) (st_world s) of
        (r, us, w1) \<Rightarrow>
          (r, s\<lparr>st_mon := (st_mon s)\<lparr>self_unit_trackers := us\<rparr>, st_world := w1\<rparr>))"

text \<open>Lines 200 and 201.\<close>

definition flush_results ::
  "('tc, 'i, 'ts, 'd) env \<Rightarrow> ('i, 'ts, 'd) rstate \<Rightarrow> exn option \<times> ('i, 'ts, 'd) rstate" where
  "flush_results env s =
     (case st_result_writer s of
        None \<Rightarrow> (None, s)
      | Some wr \<Rightarrow> (case ext env RwFlush (st_world s) of (r, w1) \<Rightarrow> (r, s\<lparr>st_world := w1\<rparr>)))"

text \<open>
  Lines 203 to 210. \<open>i % self.draw_every_n\<close> is evaluated only when \<open>_draw_results\<close> is
  true, and raises ZeroDivisionError on a stride of zero. \<open>self._window_name\<close> exists only
  when the Monitor was built with \<open>draw_results\<close>.
\<close>

definition show_frame ::
  "('tc, 'i, 'ts, 'd) env \<Rightarrow> nat \<Rightarrow> ('i, 'ts, 'd) rstate \<Rightarrow> exn option \<times> ('i, 'ts, 'd) rstate" where
  "show_frame env tmp s =
     (case self_window_name (st_mon s) of
        None \<Rightarrow> (Some (Exn AttributeError ''Monitor object has no attribute _window_name''), s)
      | Some name \<Rightarrow>
          (case ext env (Imshow name (imgs (st_world s) ! tmp)) (st_world s) of
             (Some e, w1) \<Rightarrow> (Some e, s\<lparr>st_world := w1\<rparr>)
           | (None, w1) \<Rightarrow>
               (case ext env (WaitKey 1) w1 of (r, w2) \<Rightarrow> (r, s\<lparr>st_world := w2\<rparr>))))"

definition write_frame ::
  "('tc, 'i, 'ts, 'd) env \<Rightarrow> nat \<Rightarrow> ('i, 'ts, 'd) rstate \<Rightarrow> exn option \<times> ('i, 'ts, 'd) rstate" where
  "write_frame env tmp s =
     (case st_vw s of
        None \<Rightarrow> (None, s)
      | Some v \<Rightarrow>
          (case ext env (VwWrite (imgs (st_world s) ! tmp)) (st_world s) of
             (r, w1) \<Rightarrow> (r, s\<lparr>st_world := w1\<rparr>)))"

definition draw_and_output ::
  "('tc, 'i, 'ts, 'd) env \<Rightarrow> nat \<Rightarrow> nat \<Rightarrow> ('i, 'ts, 'd) rstate
   \<Rightarrow> exn option \<times> ('i, 'ts, 'd) rstate" where
  "draw_and_output env i frame s =
     (let m = st_mon s
      in if self_draw_results m \<and> draw_every_n m = 0
         then (Some (Exn ZeroDivisionError ''integer division or modulo by zero''), s)
         else if (self_draw_results m \<and> int i mod draw_every_n m = 0) \<or> st_vw s \<noteq> None
         then (case draw_on_frame m (Some frame) (st_world s) of
                 (Inl e, w1) \<Rightarrow> (Some e, s\<lparr>st_world := w1\<rparr>)
               | (Inr tmp, w1) \<Rightarrow>
                   (case (if self_draw_results m \<and> int i mod draw_every_n m = 0
                          then show_frame env tmp (s\<lparr>st_world := w1\<rparr>)
                          else (None, s\<lparr>st_world := w1\<rparr>)) of
                      (Some e, s1) \<Rightarrow> (Some e, s1)
                    | (None, s1) \<Rightarrow> write_frame env tmp s1))
         else (None, s))"

definition process_frame ::
  "('tc, 'i, 'ts, 'd) env \<Rightarrow> nat \<Rightarrow> real \<Rightarrow> nat \<Rightarrow> ('i, 'ts, 'd) rstate
   \<Rightarrow> exn option \<times> ('i, 'ts, 'd) rstate" where
  "process_frame env i t frame s =
     (let s1 = s\<lparr>st_mon := (st_mon s)\<lparr>self_last_time_stamp := t,
                                        self_frame_buffer := Some frame\<rparr>\<rparr>
      in case open_video env frame s1 of
           (Some e, s2) \<Rightarrow> (Some e, s2)
         | (None, s2) \<Rightarrow>
             (case track_units env t frame s2 of
                (Some e, s3) \<Rightarrow> (Some e, s3)
              | (None, s3) \<Rightarrow>
                  (case flush_results env s3 of
                     (Some e, s4) \<Rightarrow> (Some e, s4)
                   | (None, s4) \<Rightarrow> draw_and_output env i frame s4)))"

subsection \<open>\<open>run\<close>: the loop (lines 169 to 210)\<close>

datatype exit_kind = Exhausted | StopRequest | Timeout | Fatal exn

datatype ('i, 'ts, 'd) step =
  Continue "('i, 'ts, 'd) rstate"
  | Done exit_kind "('i, 'ts, 'd) rstate"

text \<open>
  A call of \<open>stop()\<close> from outside while a frame is processed. The body of the loop never
  reads \<open>_force_stop\<close>, so the moment of the call within the frame does not matter: the
  flag is seen at the next test of line 171. A \<open>stop()\<close> that raises leaves the Monitor
  as it is (the exception goes to the caller of \<open>stop\<close>).
\<close>

definition external_stop ::
  "('tc, 'i, 'ts, 'd) env \<Rightarrow> nat \<Rightarrow> ('i, 'ts) monitor \<Rightarrow> ('i, 'ts) monitor" where
  "external_stop env i m =
     (if stop_called_during env i then (case stop m of Inl e \<Rightarrow> m | Inr m1 \<Rightarrow> m1) else m)"

text \<open>
  One turn of \<open>for i, (t, frame) in enumerate(self._camera)\<close>: the next pair is taken
  from the camera (the frame is a new object of the store), then the two tests of lines
  171 to 176, then the body.
\<close>

definition loop_iter ::
  "('tc, 'i, 'ts, 'd) env \<Rightarrow> nat \<Rightarrow> ('i, 'ts, 'd) rstate \<Rightarrow> ('i, 'ts, 'd) step" where
  "loop_iter env i s =
     (let w1 = emit CameraNext (st_world s)
      in case camera_next env (trace (st_world s)) of
           Inl e \<Rightarrow> Done (Fatal e) (s\<lparr>st_world := w1\<rparr>)
         | Inr None \<Rightarrow> Done Exhausted (s\<lparr>st_world := w1\<rparr>)
         | Inr (Some (t, im)) \<Rightarrow>
             (let frame = length (imgs w1);
                  w2 = w1\<lparr>imgs := imgs w1 @ [im]\<rparr>
              in if self_force_stop (st_mon s)
                 then Done StopRequest
                        (s\<lparr>st_world :=
                             emit (LogInfo ''Monitor object stopped from external request'') w2\<rparr>)
                 else if (case self_max_duration (st_mon s) of
                            None \<Rightarrow> False
                          | Some d \<Rightarrow> t > d)
                 then Done Timeout
                        (s\<lparr>st_world := emit (LogInfo ''Monitor object stopped by timeout'') w2\<rparr>)
                 else (case process_frame env i t frame (s\<lparr>st_world := w2\<rparr>) of
                         (Some e, s1) \<Rightarrow> Done (Fatal e) s1
                       | (None, s1) \<Rightarrow>
                           Continue (s1\<lparr>st_mon := external_stop env i (st_mon s1)\<rparr>))))"

text \<open>
  The camera may never be exhausted, so the loop may not end: \<open>run_loop\<close> takes the
  number of turns it may make, and \<open>None\<close> says that they did not suffice.
\<close>

fun run_loop ::
  "('tc, 'i, 'ts, 'd) env \<Rightarrow> nat \<Rightarrow> nat \<Rightarrow> ('i, 'ts, 'd) rstate
   \<Rightarrow> (exit_kind \<times> ('i, 'ts, 'd) rstate) option" where
  "run_loop env 0 i s = None"
| "run_loop env (Suc fuel) i s =
     (case loop_iter env i s of
        Continue s1 \<Rightarrow> run_loop env fuel (Suc i) s1
      | Done ex s1 \<Rightarrow> Some (ex, s1))"

subsection \<open>\<open>run\<close>: the \<open>try\<close> statement (lines 158 to 236)\<close>

text \<open>Lines 162 to 166, before the loop.\<close>

definition run_setup ::
  "('tc, 'i, 'ts, 'd) env \<Rightarrow> ('i, 'ts, 'd) rstate \<Rightarrow> exn option \<times> ('i, 'ts, 'd) rstate" where
  "run_setup env s =
     (case (if self_draw_results (st_mon s)
            then (case self_window_name (st_mon s) of
                    None \<Rightarrow>
                      (Some (Exn AttributeError ''Monitor object has no attribute _window_name''), s)
                  | Some name \<Rightarrow>
                      (case ext env (NamedWindow name) (st_world s) of
                         (r, w1) \<Rightarrow> (r, s\<lparr>st_world := w1\<rparr>)))
            else (None, s)) of
        (Some e, s1) \<Rightarrow> (Some e, s1)
      | (None, s1) \<Rightarrow>
          (case self_result_file (st_mon s1) of
             None \<Rightarrow> (None, s1)
           | Some f \<Rightarrow>
               (case ext env (NewResultWriter f (self_metadata (st_mon s1))) (st_world s1) of
                  (Some e, w1) \<Rightarrow> (Some e, s1\<lparr>st_world := w1\<rparr>)
                | (None, w1) \<Rightarrow>
                    (None, s1\<lparr>st_result_writer :=
                                 Some \<lparr>rw_file = f, rw_metadata = self_metadata (st_mon s1)\<rparr>,
                               st_world := w1\<rparr>))))"

text \<open>The suite of \<open>try\<close>: how it ends, and in which state.\<close>

definition run_try ::
  "('tc, 'i, 'ts, 'd) env \<Rightarrow> nat \<Rightarrow> ('i, 'ts) monitor \<Rightarrow> 'd world
   \<Rightarrow> (exit_kind \<times> ('i, 'ts, 'd) rstate) option" where
  "run_try env fuel m w =
     (case run_setup env \<lparr>st_mon = m, st_vw = None, st_result_writer = None, st_world = w\<rparr> of
        (Some e, s) \<Rightarrow> Some (Fatal e, s)
      | (None, s) \<Rightarrow>
          run_loop env fuel 0 (s\<lparr>st_mon := (st_mon s)\<lparr>self_is_running := True\<rparr>\<rparr>))"

text \<open>
  The two \<open>except\<close> clauses (lines 213 to 221): an exception of class PSVException or
  Exception is logged and stored; any other goes on. The result is the exception still
  on its way.
\<close>

definition run_except ::
  "exit_kind \<Rightarrow> ('i, 'ts, 'd) rstate \<Rightarrow> exn option \<times> ('i, 'ts, 'd) rstate" where
  "run_except ex s =
     (case ex of
        Fatal e \<Rightarrow>
          (if exn_cls e = PSVException
           then (None,
                 s\<lparr>st_world :=
                     emit (LogError (''A PysoloVideo exception '' @ [CHR 0x27] @ str_exn e
                                     @ [CHR 0x27] @ '' was detected by Monitor object''))
                       (st_world s),
                   st_mon := (st_mon s)\<lparr>self_exception := Some e\<rparr>\<rparr>)
           else if is_Exception e
           then (None,
                 s\<lparr>st_world :=
                     emit (LogError (''An undefined exception '' @ [CHR 0x27] @ str_exn e
                                     @ [CHR 0x27] @ '' was detected by Monitor object''))
                       (st_world s),
                   st_mon := (st_mon s)\<lparr>self_exception := Some e\<rparr>\<rparr>)
           else (Some e, s))
      | _ \<Rightarrow> (None, s))"

text \<open>
  The inner \<open>try\<close> of the \<open>finally\<close> clause (lines 225 to 231): whatever one of the three
  calls raises is dropped, and the calls after it are not made.
\<close>

definition close_windows :: "('tc, 'i, 'ts, 'd) env \<Rightarrow> 'd world \<Rightarrow> 'd world" where
  "close_windows env w =
     (case ext env (WaitKey 1) w of
        (Some e, w1) \<Rightarrow> w1
      | (None, w1) \<Rightarrow>
          (case ext env DestroyAllWindows w1 of
             (Some e, w2) \<Rightarrow> w2
           | (None, w2) \<Rightarrow> snd (ext env (WaitKey 1) w2)))"

text \<open>
  The \<open>finally\<close> clause (lines 223 to 236). An exception of \<open>vw.release()\<close> leaves
  \<open>run\<close> in place of the one on its way.
\<close>

definition run_finally ::
  "('tc, 'i, 'ts, 'd) env \<Rightarrow> exn option \<Rightarrow> ('i, 'ts, 'd) rstate
   \<Rightarrow> exn option \<times> ('i, 'ts, 'd) rstate" where
  "run_finally env pending s =
     (let s1 = s\<lparr>st_mon := (st_mon s)\<lparr>self_is_running := False\<rparr>,
                 st_world := close_windows env (st_world s)\<rparr>
      in case (case st_vw s1 of
                 None \<Rightarrow> (None, st_world s1)
               | Some v \<Rightarrow> ext env VwRelease (st_world s1)) of
           (Some e, w1) \<Rightarrow> (Some e, s1\<lparr>st_world := w1\<rparr>)
         | (None, w1) \<Rightarrow> (pending, s1\<lparr>st_world := emit (LogInfo ''Monitor closing'') w1\<rparr>))"

text \<open>
  \<open>run\<close>: the exception that leaves it, if any, the Monitor and the world; \<open>None\<close> when
  the loop has not ended within \<open>fuel\<close> turns.
\<close>

definition run ::
  "('tc, 'i, 'ts, 'd) env \<Rightarrow> nat \<Rightarrow> ('i, 'ts) monitor \<Rightarrow> 'd world
   \<Rightarrow> (exn option \<times> ('i, 'ts) monitor \<times> 'd world) option" where
  "run env fuel m w =
     (case run_try env fuel m w of
        None \<Rightarrow> None
      | Some (ex, s) \<Rightarrow>
          (case run_except ex s of
             (pending, s1) \<Rightarrow>
               (case run_finally env pending s1 of
                  (r, s2) \<Rightarrow> Some (r, st_mon s2, st_world s2))))"

subsection \<open>Calls from outside\<close>





subsection \<open>What the renderer draws\<close>

text \<open>
  The drawing calls \<open>_draw_on_frame\<close> makes for one ROI, given the table of positions,
  and the image they leave. The lemmas below show that the loop over the units computes
  exactly this.
\<close>

definition roi_ops :: "(int \<Rightarrow> position option) \<Rightarrow> roi \<Rightarrow> draw_op list" where
  "roi_ops positions r =
     PutText (str_int (idx r)) (offset r) (255, 255, 0)
     # (case positions (idx r) of
          None \<Rightarrow> []
        | Some pos \<Rightarrow>
            [DrawContours [polygon r]
               (if has_interacted pos then (0, 255, 0) else (255, 0, 255)),
             Ellipse ((pos_x pos, pos_y pos), (pos_w pos, pos_h pos), pos_phi pos)
               (if is_inferred pos then (255, 0, 0) else (0, 255, 255))])"

definition render :: "image \<Rightarrow> roi list \<Rightarrow> (int \<Rightarrow> position option) \<Rightarrow> image" where
  "render im rs positions = im\<lparr>drawn := drawn im @ concat (map (roi_ops positions) rs)\<rparr>"

subsection \<open>The calls of \<open>__init__\<close> before the units are built\<close>


definition init_world :: "roi list option \<Rightarrow> 'd world \<Rightarrow> 'd world" where
  "init_world rois w =
     emit CameraRestart
       (case rois of None \<Rightarrow> emit DefaultROIBuilder (w\<lparr>dicts := dicts w @ [Map.empty]\<rparr>)
                   | Some l \<Rightarrow> w\<lparr>dicts := dicts w @ [Map.empty]\<rparr>)"

subsection \<open>Concrete inputs\<close>

definition demo_roi1 :: roi where
  "demo_roi1 = \<lparr>idx = 1, polygon = [(0, 0), (10, 0), (10, 10), (0, 10)], offset = (0, 0)\<rparr>"

definition demo_roi2 :: roi where
  "demo_roi2 = \<lparr>idx = 2, polygon = [(20, 0), (30, 0), (30, 10), (20, 10)], offset = (20, 0)\<rparr>"

definition demo_pos :: position where
  "demo_pos = \<lparr>pos_x = 5, pos_y = 5, pos_w = 2, pos_h = 1, pos_phi = 0,
                is_inferred = False, has_interacted = False\<rparr>"

definition demo_img :: image where
  "demo_img = \<lparr>shape = (48, 64), raw = 7, drawn = []\<rparr>"

text \<open>A Monitor of two ROIs as \<open>__init__\<close> leaves it, and a world with one frame.\<close>

definition demo_monitor :: "(string, nat) monitor" where
  "demo_monitor =
     \<lparr>self_result_file = None, self_metadata = None, self_exception = None,
      self_draw_results = False, self_window_name = None, draw_every_n = 1,
      self_max_duration = Some 10000, self_video_out = None, self_frame_buffer = None,
      self_force_stop = False, self_last_positions = 0, self_last_time_stamp = 0,
      self_is_running = False,
      self_unit_trackers = [\<lparr>roi = demo_roi1, interactor = None, tstate = 0\<rparr>,
                            \<lparr>roi = demo_roi2, interactor = None, tstate = 1\<rparr>]\<rparr>"

definition demo_world :: "nat world" where
  "demo_world = \<lparr>imgs = [demo_img], dicts = [Map.empty], trace = []\<rparr>"

text \<open>The world before any Monitor is built.\<close>

definition demo_world0 :: "nat world" where
  "demo_world0 = \<lparr>imgs = [], dicts = [], trace = []\<rparr>"

definition demo_unit1 :: "(string, nat) tracking_unit" where
  "demo_unit1 = \<lparr>roi = demo_roi1, interactor = None, tstate = 0\<rparr>"

definition demo_unit2 :: "(string, nat) tracking_unit" where
  "demo_unit2 = \<lparr>roi = demo_roi2, interactor = None, tstate = 1\<rparr>"

text \<open>
  Collaborators that never raise: a camera of two frames, 20 ms apart; units that yield
  a row when their state is even, and never when it is odd.
\<close>

definition demo_env :: "(unit, string, nat, nat) env" where
  "demo_env =
     \<lparr>getpid = 4242,
      default_roi_builder = (\<lambda>tr. Inr [demo_roi1, demo_roi2]),
      new_tracking_unit = (\<lambda>tc r ia. Inr (nat (idx r) - 1)),
      camera_next = (\<lambda>tr. if count_list tr CameraNext < 2
                           then Inr (Some (20 * real (count_list tr CameraNext), demo_img))
                           else Inr None),
      track = (\<lambda>ts t im. Inr (if even ts then Some ts else None, ts + 2)),
      get_last_position = (\<lambda>ts. Inr (Some (demo_pos\<lparr>pos_x := real ts\<rparr>))),
      raises = (\<lambda>tr c. None),
      stop_called_during = (\<lambda>i. False)\<rparr>"

text \<open>
  Variants: a caller that calls \<open>stop()\<close> while the first frame is processed, a tracker that
  raises on the second frame, and a Monitor whose maximum duration is 10 ms.
\<close>

definition stop_env :: "(unit, string, nat, nat) env" where
  "stop_env = demo_env\<lparr>stop_called_during := (\<lambda>i. i = 0)\<rparr>"



text \<open>The state of \<open>run\<close> on the Monitor of two ROIs when the loop starts.\<close>

definition demo_state :: "(string, nat, nat) rstate" where
  "demo_state = \<lparr>st_mon = demo_monitor\<lparr>self_is_running := True\<rparr>, st_vw = None,
                  st_result_writer = None, st_world = demo_world\<rparr>"




section \<open>Properties\<close>

subsection \<open>The renderer, as a function of the frame, the ROIs and the positions\<close>

lemma draw_unit_ops:
  "fc < length (imgs w) \<Longrightarrow>
   draw_unit p fc u w =
     w\<lparr>imgs := (imgs w)[fc := (imgs w ! fc)\<lparr>drawn := drawn (imgs w ! fc)
         @ roi_ops (dicts w ! p) (roi u)\<rparr>]\<rparr>"
  by (simp add: draw_unit_def cv2_putText_def cv2_drawContours_def cv2_ellipse_def draw_def
      roi_ops_def Let_def split: option.splits)

lemma draw_units_ops:
  "fc < length (imgs w) \<Longrightarrow>
   draw_units p fc us w =
     w\<lparr>imgs := (imgs w)[fc := (imgs w ! fc)\<lparr>drawn := drawn (imgs w ! fc)
         @ concat (map (roi_ops (dicts w ! p)) (map roi us))\<rparr>]\<rparr>"
proof (induction us arbitrary: w)
  case Nil
  then show ?case by simp
next
  case (Cons u us)
  then show ?case by (simp add: draw_unit_ops)
qed

lemma draw_on_frame_render:
  "a < length (imgs w) \<Longrightarrow>
   draw_on_frame m (Some a) w =
     (Inr (length (imgs w)),
      w\<lparr>imgs := imgs w @ [render (imgs w ! a) (map roi (self_unit_trackers m))
                            (dicts w ! self_last_positions m)]\<rparr>)"
  by (simp add: draw_on_frame_def ndarray_copy_def draw_units_ops render_def nth_append)

lemma str_int_1: "str_int 1 = ''1''"
  by (simp add: str_int_def str_nat.simps digit_def)

lemma roi_ops_absent:
  "\<forall>v \<in> set us. tbl (idx (roi v)) = None \<Longrightarrow>
   concat (map (\<lambda>v. roi_ops tbl (roi v)) us)
     = map (\<lambda>v. PutText (str_int (idx (roi v))) (offset (roi v)) (255, 255, 0)) us"
  by (induction us) (simp_all add: roi_ops_def)

lemma str_int_2: "str_int 2 = ''2''"
  by (simp add: str_int_def str_nat.simps digit_def)

subsection \<open>The renderer\<close>

text \<open>
  C5, as the claim states it, fails: for a ROI with no known position the outline is not
  drawn. With an empty table the annotated frame carries the two labels and nothing else.
\<close>

theorem outline_without_position_counterexample:
  "(dicts demo_world ! self_last_positions demo_monitor) (idx demo_roi1) = None \<and>
   fst (draw_on_frame demo_monitor (Some 0) demo_world) = Inr 1 \<and>
   DrawContours [polygon demo_roi1] (255, 0, 255)
     \<notin> set (drawn (imgs (snd (draw_on_frame demo_monitor (Some 0) demo_world)) ! 1)) \<and>
   drawn (imgs (snd (draw_on_frame demo_monitor (Some 0) demo_world)) ! 1)
     = [PutText (str_int 1) (0, 0) (255, 255, 0), PutText (str_int 2) (20, 0) (255, 255, 0)]"
  by (simp add: draw_on_frame_render render_def roi_ops_def demo_world_def demo_monitor_def
      demo_roi1_def demo_roi2_def demo_img_def)

text \<open>
  C5, amended: for a ROI with no known position the renderer draws the identity label
  only. On the annotated frame, the calls made for that ROI (between those of the ROIs
  before it and those of the ROIs after it, in the order of the list) are the one
  \<open>putText\<close> of its label: no outline and no ellipse. The call returns the annotated
  frame, so the absence of a position is not an error. When no ROI has a position, the
  annotated frame carries the labels and nothing else.
\<close>

theorem label_only_without_position:
  assumes "a < length (imgs w)"
    and "self_unit_trackers m = us1 @ u # us2"
    and "(dicts w ! self_last_positions m) (idx (roi u)) = None"
  shows "fst (draw_on_frame m (Some a) w) = Inr (length (imgs w))
       \<and> drawn (imgs (snd (draw_on_frame m (Some a) w)) ! length (imgs w))
           = drawn (imgs w ! a)
             @ concat (map (\<lambda>v. roi_ops (dicts w ! self_last_positions m) (roi v)) us1)
             @ [PutText (str_int (idx (roi u))) (offset (roi u)) (255, 255, 0)]
             @ concat (map (\<lambda>v. roi_ops (dicts w ! self_last_positions m) (roi v)) us2)
       \<and> ((\<forall>v \<in> set (us1 @ us2). (dicts w ! self_last_positions m) (idx (roi v)) = None) \<longrightarrow>
            drawn (imgs (snd (draw_on_frame m (Some a) w)) ! length (imgs w))
              = drawn (imgs w ! a)
                @ map (\<lambda>v. PutText (str_int (idx (roi v))) (offset (roi v)) (255, 255, 0))
                    (self_unit_trackers m))"
proof -
  let ?tbl = "dicts w ! self_last_positions m"
  let ?out = "drawn (imgs (snd (draw_on_frame m (Some a) w)) ! length (imgs w))"
  have u: "roi_ops ?tbl (roi u) = [PutText (str_int (idx (roi u))) (offset (roi u)) (255, 255, 0)]"
    using assms(3) by (simp add: roi_ops_def)
  have out: "?out = drawn (imgs w ! a)
      @ concat (map (\<lambda>v. roi_ops ?tbl (roi v)) (self_unit_trackers m))"
    using assms(1) by (simp add: draw_on_frame_render render_def comp_def)
  have 1: "fst (draw_on_frame m (Some a) w) = Inr (length (imgs w))"
    using assms(1) by (simp add: draw_on_frame_render)
  have 2: "?out = drawn (imgs w ! a)
             @ concat (map (\<lambda>v. roi_ops ?tbl (roi v)) us1)
             @ [PutText (str_int (idx (roi u))) (offset (roi u)) (255, 255, 0)]
             @ concat (map (\<lambda>v. roi_ops ?tbl (roi v)) us2)"
    unfolding out assms(2) by (simp add: u)
  have 3: "?out = drawn (imgs w ! a)
                @ map (\<lambda>v. PutText (str_int (idx (roi v))) (offset (roi v)) (255, 255, 0))
                    (self_unit_trackers m)"
    if "\<forall>v \<in> set (us1 @ us2). ?tbl (idx (roi v)) = None"
  proof -
    from that assms(3) have "\<forall>v \<in> set (self_unit_trackers m). ?tbl (idx (roi v)) = None"
      unfolding assms(2) by auto
    from roi_ops_absent [OF this] show ?thesis unfolding out by simp
  qed
  from 1 2 3 show ?thesis by blast
qed

theorem label_only_without_position_witness:
  "0 < length (imgs demo_world)
   \<and> self_unit_trackers demo_monitor = [] @ demo_unit1 # [demo_unit2]
   \<and> (dicts demo_world ! self_last_positions demo_monitor) (idx (roi demo_unit1)) = None
   \<and> (dicts demo_world ! self_last_positions demo_monitor) (idx (roi demo_unit2)) = None
   \<and> fst (draw_on_frame demo_monitor (Some 0) demo_world) = Inr 1
   \<and> drawn (imgs (snd (draw_on_frame demo_monitor (Some 0) demo_world)) ! 1)
       = [PutText ''1'' (0, 0) (255, 255, 0), PutText ''2'' (20, 0) (255, 255, 0)]"
proof -
  have h1: "0 < length (imgs demo_world)"
    by (simp add: demo_world_def)
  have h2: "self_unit_trackers demo_monitor = [] @ demo_unit1 # [demo_unit2]"
    by (simp add: demo_monitor_def demo_unit1_def demo_unit2_def)
  have h3: "(dicts demo_world ! self_last_positions demo_monitor) (idx (roi demo_unit1)) = None"
    by (simp add: demo_world_def demo_monitor_def)
  have h4: "\<forall>v \<in> set ([] @ [demo_unit2]).
         (dicts demo_world ! self_last_positions demo_monitor) (idx (roi v)) = None"
    by (simp add: demo_world_def demo_monitor_def)
  have l: "length (imgs demo_world) = 1" "drawn (imgs demo_world ! 0) = []"
    "roi demo_unit1 = demo_roi1" "roi demo_unit2 = demo_roi2"
    "str_int (idx demo_roi1) = ''1''" "offset demo_roi1 = (0, 0)"
    "str_int (idx demo_roi2) = ''2''" "offset demo_roi2 = (20, 0)"
    by (simp_all add: demo_world_def demo_img_def demo_roi1_def demo_roi2_def demo_unit1_def
        demo_unit2_def str_int_1 str_int_2)
  note t = label_only_without_position [OF h1 h2 h3]
  from t have "fst (draw_on_frame demo_monitor (Some 0) demo_world)
      = Inr (length (imgs demo_world))"
    by (rule conjunct1)
  then have c1: "fst (draw_on_frame demo_monitor (Some 0) demo_world) = Inr 1"
    unfolding l(1) .
  from t [THEN conjunct2, THEN conjunct2, THEN mp, OF h4]
  have c2: "drawn (imgs (snd (draw_on_frame demo_monitor (Some 0) demo_world)) ! 1)
       = [PutText ''1'' (0, 0) (255, 255, 0), PutText ''2'' (20, 0) (255, 255, 0)]"
    unfolding l(1) by (simp add: l h2 del: One_nat_def)
  have h5: "(dicts demo_world ! self_last_positions demo_monitor) (idx (roi demo_unit2)) = None"
    by (simp add: demo_world_def demo_monitor_def)
  from h1 h2 h3 h5 c1 c2 show ?thesis by (intro conjI)
qed

text \<open>
  C7: the annotated frame is a new object of the store, the frame passed in and every
  other frame are left as they were (and so are the dictionaries and the trace), and two
  calls on equal frames, equal ROIs and equal tables of positions give equal annotated
  frames.
\<close>

theorem renderer_pure:
  assumes "a1 < length (imgs w1)" and "a2 < length (imgs w2)"
    and "imgs w1 ! a1 = imgs w2 ! a2"
    and "map roi (self_unit_trackers m1) = map roi (self_unit_trackers m2)"
    and "dicts w1 ! self_last_positions m1 = dicts w2 ! self_last_positions m2"
  shows "fst (draw_on_frame m1 (Some a1) w1) = Inr (length (imgs w1))
       \<and> fst (draw_on_frame m2 (Some a2) w2) = Inr (length (imgs w2))
       \<and> imgs (snd (draw_on_frame m1 (Some a1) w1)) ! length (imgs w1)
           = imgs (snd (draw_on_frame m2 (Some a2) w2)) ! length (imgs w2)
       \<and> imgs (snd (draw_on_frame m1 (Some a1) w1)) ! a1 = imgs w1 ! a1
       \<and> take (length (imgs w1)) (imgs (snd (draw_on_frame m1 (Some a1) w1))) = imgs w1
       \<and> dicts (snd (draw_on_frame m1 (Some a1) w1)) = dicts w1
       \<and> trace (snd (draw_on_frame m1 (Some a1) w1)) = trace w1"
  using assms by (simp add: draw_on_frame_render nth_append)

text \<open>Two calls in a row on the same frame: the second sees the store the first left.\<close>

theorem renderer_pure_witness:
  "0 < length (imgs demo_world)
   \<and> imgs (snd (draw_on_frame demo_monitor (Some 0) demo_world)) ! 1
       = imgs (snd (draw_on_frame demo_monitor (Some 0)
                      (snd (draw_on_frame demo_monitor (Some 0) demo_world)))) ! 2
   \<and> imgs (snd (draw_on_frame demo_monitor (Some 0) demo_world)) ! 0 = demo_img"
proof -
  let ?w2 = "snd (draw_on_frame demo_monitor (Some 0) demo_world)"
  have l: "length (imgs demo_world) = 1" "imgs demo_world ! 0 = demo_img"
    by (simp_all add: demo_world_def)
  have w2: "length (imgs ?w2) = 2" "imgs ?w2 ! 0 = demo_img" "dicts ?w2 = dicts demo_world"
    by (simp_all add: draw_on_frame_render l nth_append)
  have h1: "0 < length (imgs demo_world)" and h2: "0 < length (imgs ?w2)"
    and h3: "imgs demo_world ! 0 = imgs ?w2 ! 0"
    and h5: "dicts demo_world ! self_last_positions demo_monitor
             = dicts ?w2 ! self_last_positions demo_monitor"
    by (simp_all add: l w2)
  from renderer_pure [OF h1 h2 h3 refl h5] show ?thesis
    by (simp add: l w2)
qed

subsection \<open>The read accessors\<close>

text \<open>
  C10: on a Monitor with no stored exception and no frame recorded yet
  (\<open>_frame_buffer\<close> still \<open>None\<close>), \<open>last_drawn_frame\<close> raises (the AttributeError of
  \<open>None.copy()\<close>) and returns no frame.
\<close>

theorem last_drawn_frame_without_frame:
  "self_exception m = None \<Longrightarrow> self_frame_buffer m = None \<Longrightarrow>
   last_drawn_frame m w = (Inl (Exn AttributeError ''NoneType object has no attribute copy''), w)"
  by (simp add: last_drawn_frame_def draw_on_frame_def)

theorem last_drawn_frame_without_frame_witness:
  "self_exception demo_monitor = None \<and> self_frame_buffer demo_monitor = None \<and>
   last_drawn_frame demo_monitor demo_world
     = (Inl (Exn AttributeError ''NoneType object has no attribute copy''), demo_world)"
  using last_drawn_frame_without_frame [of demo_monitor demo_world]
  by (simp add: demo_monitor_def)

text \<open>
  C9, as the claim states it, fails: the value \<open>last_positions\<close> returns is the address of
  the internal dictionary, and a store through it is seen in the Monitor's own table.
\<close>

theorem last_positions_copy_counterexample:
  "last_positions demo_monitor = Inr 0 \<and>
   (dicts demo_world ! self_last_positions demo_monitor) 1 = None \<and>
   (dicts (dict_setitem 0 1 demo_pos demo_world) ! self_last_positions demo_monitor) 1
     = Some demo_pos"
  by (simp add: last_positions_def demo_monitor_def demo_world_def dict_setitem_def)

text \<open>
  C9, amended: the mapping \<open>last_positions\<close> returns is the internal table itself (the same
  object), so that setting a key of the returned value sets it in the Monitor's table.
\<close>

theorem last_positions_is_internal_table:
  "last_positions m = Inr r \<Longrightarrow> r < length (dicts w) \<Longrightarrow>
   r = self_last_positions m \<and>
   (dicts (dict_setitem r k v w) ! self_last_positions m) k = Some v"
  by (auto simp: last_positions_def dict_setitem_def split: option.splits)

theorem last_positions_is_internal_table_witness:
  "last_positions demo_monitor = Inr 0 \<and> 0 < length (dicts demo_world) \<and>
   0 = self_last_positions demo_monitor \<and>
   (dicts (dict_setitem 0 1 demo_pos demo_world) ! self_last_positions demo_monitor) 1
     = Some demo_pos"
  using last_positions_is_internal_table [of demo_monitor 0 demo_world 1 demo_pos]
  by (simp add: last_positions_def demo_monitor_def demo_world_def)

subsection \<open>Construction\<close>

text \<open>
  C3: with \<open>max_duration\<close> absent, \<open>__init__\<close> raises the TypeError of \<open>None * 1000\<close>,
  whatever the other arguments are, and no Monitor is built.
\<close>

theorem init_without_max_duration:
  "Monitor_init env tracker_class rois interactors result_file draw_results n video_out None
     metadata w
   = (Inl (Exn TypeError ''unsupported operand type(s) for *: NoneType and int''), w)"
  by (simp add: Monitor_init_def)

subsection \<open>The tracking units \<open>__init__\<close> builds\<close>









lemma init_world_store:
  "imgs (init_world rois w) = imgs w" "dicts (init_world rois w) = dicts w @ [Map.empty]"
  by (cases rois; simp add: init_world_def emit_def)+






lemma init_demo:
  "Monitor_init demo_env () None None None False 1 None (Some 10) None demo_world0
   = (Inr demo_monitor,
      \<lparr>imgs = [], dicts = [Map.empty],
       trace = [DefaultROIBuilder, CameraRestart, NewTrackingUnit 1, NewTrackingUnit 2]\<rparr>)"
  by (simp add: Monitor_init_def demo_env_def demo_world0_def demo_monitor_def emit_def ext_def
      demo_roi1_def demo_roi2_def Let_def)



subsection \<open>The Monitor during \<open>run\<close>\<close>

lemma open_video_mon: "st_mon (snd (open_video env f s)) = st_mon s"
  by (simp add: open_video_def ext_def Let_def split: option.split)

lemma track_units_mon:
  "\<exists>us. st_mon (snd (track_units env t f s)) = (st_mon s)\<lparr>self_unit_trackers := us\<rparr>"
  by (auto simp: track_units_def split: prod.split)

lemma flush_results_mon: "st_mon (snd (flush_results env s)) = st_mon s"
  by (simp add: flush_results_def ext_def split: option.split)

lemma show_frame_mon: "st_mon (snd (show_frame env tmp s)) = st_mon s"
  by (simp add: show_frame_def ext_def split: option.split)

lemma write_frame_mon: "st_mon (snd (write_frame env tmp s)) = st_mon s"
  by (simp add: write_frame_def ext_def split: option.split)

lemma draw_and_output_mon: "st_mon (snd (draw_and_output env i f s)) = st_mon s"
proof -
  have a: "st_mon (snd (case x of (Some e, s1) \<Rightarrow> (Some e, s1)
                               | (None, s1) \<Rightarrow> write_frame env tmp s1)) = st_mon (snd x)"
    for x tmp
    by (cases x; cases "fst x") (simp_all add: write_frame_mon)
  show ?thesis
    by (simp add: draw_and_output_def Let_def a show_frame_mon split: prod.split sum.split)
qed

lemma process_frame_mon:
  "\<exists>us. st_mon (snd (process_frame env i t f s))
     = (st_mon s)\<lparr>self_last_time_stamp := t, self_frame_buffer := Some f,
                  self_unit_trackers := us\<rparr>"
proof -
  let ?s1 = "s\<lparr>st_mon := (st_mon s)\<lparr>self_last_time_stamp := t, self_frame_buffer := Some f\<rparr>\<rparr>"
  obtain r2 s2 where ov: "open_video env f ?s1 = (r2, s2)" by (cases "open_video env f ?s1")
  with open_video_mon [of env f ?s1] have m2: "st_mon s2 = st_mon ?s1" by simp
  obtain r3 s3 where tu: "track_units env t f s2 = (r3, s3)" by (cases "track_units env t f s2")
  with track_units_mon [of env t f s2] obtain us where
    m3: "st_mon s3 = (st_mon s2)\<lparr>self_unit_trackers := us\<rparr>" by auto
  obtain r4 s4 where fr: "flush_results env s3 = (r4, s4)" by (cases "flush_results env s3")
  with flush_results_mon [of env s3] have m4: "st_mon s4 = st_mon s3" by simp
  have m5: "st_mon (snd (draw_and_output env i f s4)) = st_mon s4"
    by (rule draw_and_output_mon)
  have "st_mon (snd (process_frame env i t f s)) = st_mon s2
        \<or> st_mon (snd (process_frame env i t f s)) = st_mon s3"
    unfolding process_frame_def Let_def ov
    by (cases r2; cases r3; cases r4) (simp_all add: tu fr m4 m5)
  then show ?thesis
  proof
    assume "st_mon (snd (process_frame env i t f s)) = st_mon s2"
    with m2 have "st_mon (snd (process_frame env i t f s))
      = (st_mon s)\<lparr>self_last_time_stamp := t, self_frame_buffer := Some f,
                  self_unit_trackers := self_unit_trackers (st_mon s)\<rparr>"
      by simp
    then show ?thesis by (rule exI)
  next
    assume "st_mon (snd (process_frame env i t f s)) = st_mon s3"
    with m2 m3 have "st_mon (snd (process_frame env i t f s))
      = (st_mon s)\<lparr>self_last_time_stamp := t, self_frame_buffer := Some f,
                  self_unit_trackers := us\<rparr>"
      by simp
    then show ?thesis by (rule exI)
  qed
qed


text \<open>What a turn of the loop does to the Monitor.\<close>

lemma loop_iter_mon:
  assumes "loop_iter env i s = r"
  shows "(\<forall>s'. r = Continue s' \<longrightarrow>
            \<not> self_force_stop (st_mon s) \<and>
            (\<exists>t f us. st_mon s' = external_stop env i
               ((st_mon s)\<lparr>self_last_time_stamp := t, self_frame_buffer := Some f,
                            self_unit_trackers := us\<rparr>))) \<and>
         (\<forall>ex s'. r = Done ex s' \<longrightarrow>
            st_mon s' = st_mon s \<or>
            (\<not> self_force_stop (st_mon s) \<and> (\<exists>e. ex = Fatal e) \<and>
             (\<exists>t f us. st_mon s' = (st_mon s)\<lparr>self_last_time_stamp := t,
                  self_frame_buffer := Some f, self_unit_trackers := us\<rparr>)))"
proof (cases "camera_next env (trace (st_world s))")
  case (Inl e)
  with assms show ?thesis by (auto simp: loop_iter_def Let_def)
next
  case (Inr nx)
  show ?thesis
  proof (cases nx)
    case None
    with Inr assms show ?thesis by (auto simp: loop_iter_def Let_def)
  next
    case (Some p)
    obtain t im where p: "p = (t, im)" by (cases p)
    let ?w1 = "emit CameraNext (st_world s)"
    let ?f = "length (imgs ?w1)"
    let ?w2 = "?w1\<lparr>imgs := imgs ?w1 @ [im]\<rparr>"
    show ?thesis
    proof (cases "self_force_stop (st_mon s)")
      case True
      with Inr Some p assms show ?thesis by (auto simp: loop_iter_def Let_def)
    next
      case False
      show ?thesis
      proof (cases "case self_max_duration (st_mon s) of None \<Rightarrow> False | Some d \<Rightarrow> t > d")
        case True
        with False Inr Some p assms show ?thesis by (auto simp: loop_iter_def Let_def)
      next
        case nt: False
        obtain r1 s1 where pf: "process_frame env i t ?f (s\<lparr>st_world := ?w2\<rparr>) = (r1, s1)"
          by (cases "process_frame env i t ?f (s\<lparr>st_world := ?w2\<rparr>)")
        from process_frame_mon [of env i t ?f "s\<lparr>st_world := ?w2\<rparr>"] pf
        obtain us where m1: "st_mon s1 = (st_mon s)\<lparr>self_last_time_stamp := t,
            self_frame_buffer := Some ?f, self_unit_trackers := us\<rparr>"
          by auto
        have r: "r = (case r1 of Some e \<Rightarrow> Done (Fatal e) s1
                      | None \<Rightarrow> Continue (s1\<lparr>st_mon := external_stop env i (st_mon s1)\<rparr>))"
          using assms Inr Some p False nt pf
          by (simp add: loop_iter_def Let_def split: option.split)
        show ?thesis
        proof (cases r1)
          case None
          with r have "r = Continue (s1\<lparr>st_mon := external_stop env i (st_mon s1)\<rparr>)" by simp
          with m1 False show ?thesis by auto
        next
          case (Some e)
          with r have "r = Done (Fatal e) s1" by simp
          with m1 False show ?thesis by auto
        qed
      qed
    qed
  qed
qed




lemma run_except_running:
  "self_is_running (st_mon (snd (run_except ex s))) = self_is_running (st_mon s)"
  by (simp add: run_except_def split: exit_kind.split)


lemma demo_run_ends: "run demo_env 3 demo_monitor demo_world \<noteq> None"
  by code_simp




subsection \<open>The stop request\<close>

text \<open>A turn of the loop that finds the stop flag set.\<close>

lemma loop_iter_stopped:
  assumes "self_force_stop (st_mon s)"
  shows "loop_iter env i s =
     (case camera_next env (trace (st_world s)) of
        Inl e \<Rightarrow> Done (Fatal e) (s\<lparr>st_world := emit CameraNext (st_world s)\<rparr>)
      | Inr None \<Rightarrow> Done Exhausted (s\<lparr>st_world := emit CameraNext (st_world s)\<rparr>)
      | Inr (Some (t, im)) \<Rightarrow>
          Done StopRequest
            (s\<lparr>st_world := emit (LogInfo ''Monitor object stopped from external request'')
                 ((emit CameraNext (st_world s))
                    \<lparr>imgs := imgs (emit CameraNext (st_world s)) @ [im]\<rparr>)\<rparr>))"
  using assms by (simp add: loop_iter_def Let_def split: sum.split option.split prod.split)

lemma loop_iter_stop_seen:
  assumes "loop_iter env k s = Continue s'" and "stop_called_during env k"
    and "self_exception (st_mon s) = None"
  shows "self_force_stop (st_mon s')"
proof -
  from loop_iter_mon [OF assms(1)] obtain t f us where
    "st_mon s' = external_stop env k
       ((st_mon s)\<lparr>self_last_time_stamp := t, self_frame_buffer := Some f,
                    self_unit_trackers := us\<rparr>)"
    by blast
  with assms(2,3) show ?thesis by (simp add: external_stop_def stop_def)
qed

lemma demo_stop_run:
  "(case loop_iter stop_env 0 demo_state of Continue s' \<Rightarrow> True | Done ex s' \<Rightarrow> False)"
  "map_option fst (run_loop stop_env 2 0 demo_state) = Some StopRequest"
  by code_simp+

text \<open>
  C6: let \<open>stop()\<close> be called while frame \<open>k\<close> is processed, on a Monitor with no stored
  exception, and let the processing of frame \<open>k\<close> end without an exception. Then the stop
  flag is set when the loop comes back to its head, and the next turn is the last: the
  loop ends at turn \<open>k + 1\<close> whatever the number of turns it may still make. That turn
  only asks the camera for the next frame: the Monitor and the table of positions are as
  frame \<open>k\<close> left them, and no tracking unit is called (the calls made are the camera's,
  and the log of the stop request). When the camera gives a frame the loop ends by the
  stop request, which is no exception: nothing is stored and nothing goes on to the caller.
  (When the camera is exhausted the loop ends for that reason, and when the camera
  raises, by that exception.)
\<close>

theorem stop_latency:
  assumes "loop_iter env k s = Continue s'" and "stop_called_during env k"
    and "self_exception (st_mon s) = None"
  shows "self_force_stop (st_mon s')
       \<and> (\<exists>ex s''.
            run_loop env (Suc (Suc fuel)) k s = Some (ex, s'')
          \<and> run_loop env (Suc fuel) (Suc k) s' = Some (ex, s'')
          \<and> loop_iter env (Suc k) s' = Done ex s''
          \<and> st_mon s'' = st_mon s'
          \<and> dicts (st_world s'') = dicts (st_world s')
          \<and> trace (st_world s'') = trace (st_world s')
               @ CameraNext # (if ex = StopRequest
                               then [LogInfo ''Monitor object stopped from external request'']
                               else [])
          \<and> ex = (case camera_next env (trace (st_world s')) of
                    Inl e \<Rightarrow> Fatal e | Inr None \<Rightarrow> Exhausted | Inr (Some p) \<Rightarrow> StopRequest)
          \<and> (ex = StopRequest \<longrightarrow> run_except ex s'' = (None, s'')))"
proof -
  from assms have fs: "self_force_stop (st_mon s')" by (rule loop_iter_stop_seen)
  note it = loop_iter_stopped [OF fs, of env "Suc k"]
  let ?w1 = "emit CameraNext (st_world s')"
  have fin: ?thesis
    if d: "loop_iter env (Suc k) s' = Done ex s''"
      and r3: "st_mon s'' = st_mon s'"
      and r4: "dicts (st_world s'') = dicts (st_world s')"
      and r5: "trace (st_world s'') = trace (st_world s')
               @ CameraNext # (if ex = StopRequest
                               then [LogInfo ''Monitor object stopped from external request'']
                               else [])"
      and r6: "ex = (case camera_next env (trace (st_world s')) of
                    Inl e \<Rightarrow> Fatal e | Inr None \<Rightarrow> Exhausted | Inr (Some p) \<Rightarrow> StopRequest)"
      and r7: "ex = StopRequest \<longrightarrow> run_except ex s'' = (None, s'')"
    for ex s''
  proof -
    from d have r1: "run_loop env (Suc fuel) (Suc k) s' = Some (ex, s'')" by simp
    with assms(1) have r2: "run_loop env (Suc (Suc fuel)) k s = Some (ex, s'')" by simp
    from fs r2 r1 d r3 r4 r5 r6 r7 show ?thesis
      by - (rule conjI, assumption, rule exI [of _ ex], rule exI [of _ s''], intro conjI,
          assumption+)
  qed
  show ?thesis
  proof (cases "camera_next env (trace (st_world s'))")
    case (Inl e)
    with it have "loop_iter env (Suc k) s' = Done (Fatal e) (s'\<lparr>st_world := ?w1\<rparr>)" by simp
    then show ?thesis by (rule fin) (simp_all add: Inl emit_def)
  next
    case (Inr nx)
    show ?thesis
    proof (cases nx)
      case None
      with Inr it have "loop_iter env (Suc k) s' = Done Exhausted (s'\<lparr>st_world := ?w1\<rparr>)"
        by simp
      then show ?thesis by (rule fin) (simp_all add: Inr None emit_def)
    next
      case (Some p)
      obtain t im where p: "p = (t, im)" by (cases p)
      with Inr Some it have "loop_iter env (Suc k) s' = Done StopRequest
            (s'\<lparr>st_world := emit (LogInfo ''Monitor object stopped from external request'')
                 (?w1\<lparr>imgs := imgs ?w1 @ [im]\<rparr>)\<rparr>)"
        by simp
      then show ?thesis by (rule fin) (simp_all add: Inr Some emit_def run_except_def)
    qed
  qed
qed

theorem stop_latency_witness:
  "stop_called_during stop_env 0 \<and> self_exception (st_mon demo_state) = None
   \<and> (\<exists>s'. loop_iter stop_env 0 demo_state = Continue s'
          \<and> self_force_stop (st_mon s')
          \<and> (\<exists>s''. run_loop stop_env 2 0 demo_state = Some (StopRequest, s'')
                 \<and> st_mon s'' = st_mon s'
                 \<and> trace (st_world s'') = trace (st_world s')
                      @ [CameraNext, LogInfo ''Monitor object stopped from external request'']))"
proof -
  have h2: "stop_called_during stop_env 0" by (simp add: stop_env_def)
  have h3: "self_exception (st_mon demo_state) = None"
    by (simp add: demo_state_def demo_monitor_def)
  from demo_stop_run(1) obtain s' where h1: "loop_iter stop_env 0 demo_state = Continue s'"
    by (cases "loop_iter stop_env 0 demo_state") simp_all
  note t = stop_latency [OF h1 h2 h3, of 0, unfolded numeral_2_eq_2 [symmetric]]
  from t have fs: "self_force_stop (st_mon s')" by (rule conjunct1)
  from t [THEN conjunct2] obtain ex s'' where
    c: "run_loop stop_env 2 0 demo_state = Some (ex, s'')
          \<and> run_loop stop_env (Suc 0) (Suc 0) s' = Some (ex, s'')
          \<and> loop_iter stop_env (Suc 0) s' = Done ex s''
          \<and> st_mon s'' = st_mon s'
          \<and> dicts (st_world s'') = dicts (st_world s')
          \<and> trace (st_world s'') = trace (st_world s')
               @ CameraNext # (if ex = StopRequest
                               then [LogInfo ''Monitor object stopped from external request'']
                               else [])
          \<and> ex = (case camera_next stop_env (trace (st_world s')) of
                    Inl e \<Rightarrow> Fatal e | Inr None \<Rightarrow> Exhausted | Inr (Some p) \<Rightarrow> StopRequest)
          \<and> (ex = StopRequest \<longrightarrow> run_except ex s'' = (None, s''))"
    by (elim exE) (rule that)
  from c have r: "run_loop stop_env 2 0 demo_state = Some (ex, s'')" by (rule conjunct1)
  from c have m: "st_mon s'' = st_mon s'"
    by (rule conjunct2 [THEN conjunct2, THEN conjunct2, THEN conjunct1])
  from c have tr: "trace (st_world s'') = trace (st_world s')
               @ CameraNext # (if ex = StopRequest
                               then [LogInfo ''Monitor object stopped from external request'']
                               else [])"
    by (rule conjunct2 [THEN conjunct2, THEN conjunct2, THEN conjunct2, THEN conjunct2,
          THEN conjunct1])
  from demo_stop_run(2) have ex: "ex = StopRequest" unfolding r by simp
  from tr have tr2: "trace (st_world s'') = trace (st_world s')
      @ [CameraNext, LogInfo ''Monitor object stopped from external request'']"
    unfolding ex by simp
  from r have r2: "run_loop stop_env 2 0 demo_state = Some (StopRequest, s'')"
    unfolding ex .
  from r2 m tr2 have "run_loop stop_env 2 0 demo_state = Some (StopRequest, s'')
                 \<and> st_mon s'' = st_mon s'
                 \<and> trace (st_world s'') = trace (st_world s')
                      @ [CameraNext, LogInfo ''Monitor object stopped from external request'']"
    by (intro conjI)
  then have "\<exists>s''. run_loop stop_env 2 0 demo_state = Some (StopRequest, s'')
                 \<and> st_mon s'' = st_mon s'
                 \<and> trace (st_world s'') = trace (st_world s')
                      @ [CameraNext, LogInfo ''Monitor object stopped from external request'']"
    by (rule exI [of _ "s''"])
  with h1 fs have "\<exists>s'. loop_iter stop_env 0 demo_state = Continue s'
          \<and> self_force_stop (st_mon s')
          \<and> (\<exists>s''. run_loop stop_env 2 0 demo_state = Some (StopRequest, s'')
                 \<and> st_mon s'' = st_mon s'
                 \<and> trace (st_world s'') = trace (st_world s')
                      @ [CameraNext, LogInfo ''Monitor object stopped from external request''])"
    by - (rule exI [of _ s'], intro conjI, assumption+)
  with h2 h3 show ?thesis by (intro conjI)
qed

subsection \<open>Exceptions during \<open>run\<close>\<close>














end
